theory Spec2Isabelle
  imports Complex_Main
begin

section \<open>JavaScript values used by the handlers\<close>

text \<open>
  A JavaScript number is an IEEE-754 binary64 value. A finite one is modelled by the
  rational it denotes (the sign of zero is not tracked), the other three values by their
  own constructors. \<open>fl\<close> rounds a rational to the nearest binary64 value, ties to
  even, with gradual underflow below \<open>2 ^ - 1022\<close> and overflow to infinity: it is what
  \<open>JSON.parse\<close> does to a number literal and what every arithmetic operator does to
  its exact result.
\<close>

datatype jsnum = Fin rat | PosInf | NegInf | NaN

fun bit_length :: "nat \<Rightarrow> nat" where
  "bit_length n = (if n = 0 then 0 else Suc (bit_length (n div 2)))"

declare bit_length.simps [simp del]

definition pow2 :: "int \<Rightarrow> rat" where
  "pow2 e = (if 0 \<le> e then 2 ^ nat e else 1 / 2 ^ nat (- e))"

text \<open>\<open>ilog2 x\<close> is the binary exponent of a positive rational: \<open>2 ^ ilog2 x \<le> x < 2 ^ (ilog2 x + 1)\<close>.\<close>

definition ilog2 :: "rat \<Rightarrow> int" where
  "ilog2 x = (let d = (if 1 \<le> x then int (bit_length (nat \<lfloor>x\<rfloor>)) - 1
                       else - int (bit_length (nat \<lfloor>1 / x\<rfloor>)))
              in if pow2 (d + 1) \<le> x then d + 1 else d)"

definition round_half_even :: "rat \<Rightarrow> int" where
  "round_half_even x = (let f = \<lfloor>x\<rfloor>; r = x - of_int f in
     if r < 1 / 2 then f else if 1 / 2 < r then f + 1 else if even f then f else f + 1)"

text \<open>
  Around \<open>x\<close> the binary64 values are the multiples of \<open>2 ^ grid_exponent x\<close>: 53
  significant bits, and never finer than \<open>2 ^ - 1074\<close>.
\<close>

definition grid_exponent :: "rat \<Rightarrow> int" where
  "grid_exponent x = max (ilog2 \<bar>x\<bar> - 52) (- 1074)"

definition nearest_on_grid :: "rat \<Rightarrow> rat" where
  "nearest_on_grid x =
     of_int (round_half_even (x / pow2 (grid_exponent x))) * pow2 (grid_exponent x)"

definition fl :: "rat \<Rightarrow> jsnum" where
  "fl x = (if x = 0 then Fin 0 else
     let y = nearest_on_grid x
     in if 2 ^ 1024 \<le> \<bar>y\<bar> then (if 0 < x then PosInf else NegInf) else Fin y)"

text \<open>The operators \<open>*\<close>, \<open>+\<close>, \<open>-\<close>, \<open>/\<close> and \<open><\<close> on numbers.\<close>

fun js_mul :: "jsnum \<Rightarrow> jsnum \<Rightarrow> jsnum" where
  "js_mul NaN _ = NaN"
| "js_mul _ NaN = NaN"
| "js_mul (Fin a) (Fin b) = fl (a * b)"
| "js_mul (Fin a) PosInf = (if a = 0 then NaN else if 0 < a then PosInf else NegInf)"
| "js_mul (Fin a) NegInf = (if a = 0 then NaN else if 0 < a then NegInf else PosInf)"
| "js_mul PosInf (Fin b) = (if b = 0 then NaN else if 0 < b then PosInf else NegInf)"
| "js_mul NegInf (Fin b) = (if b = 0 then NaN else if 0 < b then NegInf else PosInf)"
| "js_mul PosInf PosInf = PosInf"
| "js_mul PosInf NegInf = NegInf"
| "js_mul NegInf PosInf = NegInf"
| "js_mul NegInf NegInf = PosInf"

fun js_add :: "jsnum \<Rightarrow> jsnum \<Rightarrow> jsnum" where
  "js_add NaN _ = NaN"
| "js_add _ NaN = NaN"
| "js_add (Fin a) (Fin b) = fl (a + b)"
| "js_add (Fin a) PosInf = PosInf"
| "js_add (Fin a) NegInf = NegInf"
| "js_add PosInf (Fin b) = PosInf"
| "js_add NegInf (Fin b) = NegInf"
| "js_add PosInf PosInf = PosInf"
| "js_add PosInf NegInf = NaN"
| "js_add NegInf PosInf = NaN"
| "js_add NegInf NegInf = NegInf"

fun js_neg :: "jsnum \<Rightarrow> jsnum" where
  "js_neg (Fin a) = Fin (- a)"
| "js_neg PosInf = NegInf"
| "js_neg NegInf = PosInf"
| "js_neg NaN = NaN"

definition js_sub :: "jsnum \<Rightarrow> jsnum \<Rightarrow> jsnum" where
  "js_sub a b = js_add a (js_neg b)"

text \<open>
  Division. A zero divisor gives an infinity of the sign of the dividend (the divisors of
  this program are never a negative zero), and \<open>0 / 0\<close> is \<open>NaN\<close>.
\<close>

fun js_div :: "jsnum \<Rightarrow> jsnum \<Rightarrow> jsnum" where
  "js_div NaN _ = NaN"
| "js_div _ NaN = NaN"
| "js_div (Fin a) (Fin b) =
     (if b = 0 then (if a = 0 then NaN else if 0 < a then PosInf else NegInf)
      else fl (a / b))"
| "js_div (Fin a) PosInf = Fin 0"
| "js_div (Fin a) NegInf = Fin 0"
| "js_div PosInf (Fin b) = (if 0 \<le> b then PosInf else NegInf)"
| "js_div NegInf (Fin b) = (if 0 \<le> b then NegInf else PosInf)"
| "js_div PosInf PosInf = NaN"
| "js_div PosInf NegInf = NaN"
| "js_div NegInf PosInf = NaN"
| "js_div NegInf NegInf = NaN"

fun js_lt :: "jsnum \<Rightarrow> jsnum \<Rightarrow> bool" where
  "js_lt NaN _ = False"
| "js_lt _ NaN = False"
| "js_lt (Fin a) (Fin b) = (a < b)"
| "js_lt (Fin a) PosInf = True"
| "js_lt (Fin a) NegInf = False"
| "js_lt PosInf _ = False"
| "js_lt NegInf (Fin b) = True"
| "js_lt NegInf PosInf = True"
| "js_lt NegInf NegInf = False"

text \<open>\<open>a > b\<close> is \<open>b < a\<close>.\<close>

definition js_gt :: "jsnum \<Rightarrow> jsnum \<Rightarrow> bool" where
  "js_gt a b = js_lt b a"

text \<open>\<open>Math.ceil\<close>: the ceiling of a finite value is an integer of no larger magnitude
  class, hence a binary64 value again.\<close>

fun Math_ceil :: "jsnum \<Rightarrow> jsnum" where
  "Math_ceil (Fin a) = Fin (of_int \<lceil>a\<rceil>)"
| "Math_ceil PosInf = PosInf"
| "Math_ceil NegInf = NegInf"
| "Math_ceil NaN = NaN"

text \<open>
  The values a field of a JSON request body can hold, as far as this development follows
  them: a missing key (\<open>undefined\<close>), \<open>null\<close>, a boolean or a number. Fields sent as
  strings, arrays or objects are outside the model.
\<close>

datatype jsval = JUndefined | JNull | JBool bool | JNum jsnum

text \<open>\<open>!v\<close> is \<open>\<not> truthy v\<close>.\<close>

fun truthy :: "jsval \<Rightarrow> bool" where
  "truthy JUndefined = False"
| "truthy JNull = False"
| "truthy (JBool b) = b"
| "truthy (JNum (Fin q)) = (q \<noteq> 0)"
| "truthy (JNum NaN) = False"
| "truthy (JNum PosInf) = True"
| "truthy (JNum NegInf) = True"

fun ToNumber :: "jsval \<Rightarrow> jsnum" where
  "ToNumber JUndefined = NaN"
| "ToNumber JNull = Fin 0"
| "ToNumber (JBool b) = Fin (if b then 1 else 0)"
| "ToNumber (JNum n) = n"

definition isNaN :: "jsval \<Rightarrow> bool" where
  "isNaN v = (ToNumber v = NaN)"

text \<open>
  \<open>parseInt\<close> and \<open>parseFloat\<close> convert their argument to a string and read a number
  off its front. The strings \<open>undefined\<close>, \<open>null\<close>, \<open>true\<close>, \<open>false\<close> and \<open>NaN\<close>
  start with no digit. A finite number prints as a decimal that reads back as the same
  number, so \<open>parseFloat\<close> returns it; \<open>parseInt\<close> stops at the decimal point, which
  truncates it towards zero. (A non-zero number below \<open>10 ^ - 6\<close> or from \<open>10 ^ 21\<close> on
  prints in exponent notation, where \<open>parseInt\<close> reads only the leading digit; the
  theorems below keep quantities in the range where the truncation is exact.)
  \<open>Infinity\<close> is read by \<open>parseFloat\<close> and not by \<open>parseInt\<close>.
\<close>

definition truncate_rat :: "rat \<Rightarrow> int" where
  "truncate_rat q = (if 0 \<le> q then \<lfloor>q\<rfloor> else \<lceil>q\<rceil>)"

fun parseInt :: "jsval \<Rightarrow> jsnum" where
  "parseInt (JNum (Fin q)) = Fin (of_int (truncate_rat q))"
| "parseInt _ = NaN"

fun parseFloat :: "jsval \<Rightarrow> jsnum" where
  "parseFloat (JNum n) = n"
| "parseFloat _ = NaN"

text \<open>\<open>n || d\<close> on numbers: \<open>0\<close> and \<open>NaN\<close> are falsy.\<close>

definition or_default :: "jsnum \<Rightarrow> jsnum \<Rightarrow> jsnum" where
  "or_default n d = (if truthy (JNum n) then n else d)"


section \<open>Response envelope (utils/response.utils.js)\<close>

text \<open>The \<open>timestamp\<close> field is the wall clock at the time of the call and is left out.\<close>

record 'd response =
  success :: bool
  status :: nat
  message :: string
  data :: "'d option"
  errors :: "string option"

definition sendSuccessResponse :: "nat \<Rightarrow> string \<Rightarrow> 'd option \<Rightarrow> 'd response" where
  "sendSuccessResponse statusCode msg d =
     \<lparr>success = True, status = statusCode, message = msg, data = d, errors = None\<rparr>"

definition sendErrorResponse :: "nat \<Rightarrow> string \<Rightarrow> string option \<Rightarrow> 'd response" where
  "sendErrorResponse statusCode msg errs =
     \<lparr>success = False, status = statusCode, message = msg, data = None, errors = errs\<rparr>"

definition sendUnauthorizedResponse :: "string \<Rightarrow> 'd response" where
  "sendUnauthorizedResponse msg = sendErrorResponse 401 msg None"

definition sendNotFoundResponse :: "string \<Rightarrow> 'd response" where
  "sendNotFoundResponse msg = sendErrorResponse 404 msg None"

section \<open>The data store\<close>

text \<open>
  The hosted store is an external collaborator. It is modelled by its five tables, a
  journal of the statements the program has sent to it, and a fault plan that says which
  kind of statement the store answers with an error (the client library returns store
  errors as values, it does not throw). Row ids are texts: the decimal digits of a
  \<open>BIGSERIAL\<close> id and the printed form of a UUID. Timestamps and the columns no
  handler below reads are left out.
\<close>

type_synonym ident = string

record user_row =
  u_id :: ident
  u_email :: string
  u_name :: string
  u_role :: string
  u_department :: "string option"
  u_position :: "string option"
  u_is_active :: bool

record category_row =
  c_id :: ident
  c_name :: string
  c_description :: "string option"

record product_row =
  p_id :: ident
  p_name :: string
  p_category_id :: "ident option"

record order_row =
  o_id :: ident
  o_user_id :: ident
  o_status :: string
  o_total_amount :: jsnum

record item_row =
  i_order_id :: ident
  i_product_id :: jsval
  i_quantity :: jsnum
  i_price :: jsnum

datatype call =
    SelectUsers | UpdateUsers
  | SelectCategories | DeleteCategories
  | SelectProducts
  | SelectOrders | InsertOrders | DeleteOrders
  | SelectOrderItems | InsertOrderItems | DeleteOrderItems

record store_error =
  err_message :: string
  err_code :: string

record world =
  users :: "user_row list"
  categories :: "category_row list"
  products :: "product_row list"
  orders :: "order_row list"
  order_items :: "item_row list"
  next_order_id :: ident
  journal :: "call list"
  faults :: "call \<Rightarrow> store_error option"

text \<open>
  Tables are lists in insertion order. \<open>next_order_id\<close> is the id the store's sequence
  gives to the next inserted order; a statement is journalled when it is sent, whether or
  not the store then reports an error.
\<close>

definition issue :: "call \<Rightarrow> world \<Rightarrow> world" where
  "issue c w = w\<lparr>journal := journal w @ [c]\<rparr>"

text \<open>\<open>.single()\<close>: exactly one row, or no data (and the error code \<open>PGRST116\<close>).\<close>

definition single :: "'a list \<Rightarrow> 'a option" where
  "single rows = (case rows of [r] \<Rightarrow> Some r | _ \<Rightarrow> None)"

text \<open>A thrown \<open>Error(message)\<close> is \<open>Inl message\<close>.\<close>

type_synonym 'a thrown = "string + 'a"

section \<open>User service (services/user.service.js)\<close>

text \<open>
  \<open>users.id\<close> is a UUID column (README.md, table \<open>users\<close>). The store reads the id
  of a filter \<open>.eq('id', id)\<close> with the input routine of its uuid type: eight groups
  of four hexadecimal digits in either case, with an optional hyphen after every group
  but the last, and optionally the whole in braces. It prints an id in
  lower case, grouped 8-4-4-4-12, and that is the text the rows of \<open>users\<close> carry. An
  id of any other form is answered with an error (code \<open>22P02\<close>).
\<close>

definition is_hex :: "char \<Rightarrow> bool" where
  "is_hex c =
     (let n = (of_char c :: nat) in
      (48 \<le> n \<and> n \<le> 57) \<or> (97 \<le> n \<and> n \<le> 102) \<or> (65 \<le> n \<and> n \<le> 70))"

definition lower_hex :: "char \<Rightarrow> char" where
  "lower_hex c =
     (if c = CHR ''A'' then CHR ''a'' else if c = CHR ''B'' then CHR ''b''
      else if c = CHR ''C'' then CHR ''c'' else if c = CHR ''D'' then CHR ''d''
      else if c = CHR ''E'' then CHR ''e'' else if c = CHR ''F'' then CHR ''f'' else c)"

text \<open>\<open>uuid_groups n src\<close> reads the last \<open>n\<close> of the eight groups off the front of
  \<open>src\<close> and returns their digits, in lower case, with the text that follows.\<close>

fun uuid_groups :: "nat \<Rightarrow> string \<Rightarrow> (string \<times> string) option" where
  "uuid_groups 0 src = Some ([], src)"
| "uuid_groups (Suc n) (a # b # c # d # rest) =
     (if is_hex a \<and> is_hex b \<and> is_hex c \<and> is_hex d
      then map_option (\<lambda>(ds, r). (lower_hex a # lower_hex b # lower_hex c # lower_hex d # ds, r))
             (uuid_groups n (if take 1 rest = ''-'' \<and> 0 < n then drop 1 rest else rest))
      else None)"
| "uuid_groups (Suc n) src = None"

definition uuid_out :: "string \<Rightarrow> string" where
  "uuid_out ds =
     take 8 ds @ ''-'' @ take 4 (drop 8 ds) @ ''-'' @ take 4 (drop 12 ds) @ ''-''
       @ take 4 (drop 16 ds) @ ''-'' @ drop 20 ds"

definition uuid_in :: "string \<Rightarrow> string option" where
  "uuid_in s =
     (let braces = (take 1 s = ''{'');
          src = (if braces then drop 1 s else s)
      in case uuid_groups 8 src of
           None \<Rightarrow> None
         | Some (ds, rest) \<Rightarrow>
             if rest = (if braces then ''}'' else []) then Some (uuid_out ds) else None)"

definition invalid_uuid :: "string \<Rightarrow> store_error" where
  "invalid_uuid s =
     \<lparr>err_message = ''invalid input syntax for type uuid: '' @ [CHR 0x22] @ s @ [CHR 0x22],
      err_code = ''22P02''\<rparr>"

definition UserService_findById :: "ident \<Rightarrow> world \<Rightarrow> user_row option thrown \<times> world" where
  "UserService_findById ident w =
     (let w' = issue SelectUsers w in
      case faults w SelectUsers of
        Some e \<Rightarrow>
          if err_code e \<noteq> ''PGRST116''
          then (Inl (''Database error: '' @ err_message e), w')
          else (Inr None, w')
      | None \<Rightarrow>
          (case uuid_in ident of
             None \<Rightarrow> (Inl (''Database error: '' @ err_message (invalid_uuid ident)), w')
           | Some u \<Rightarrow> (Inr (single (filter (\<lambda>row. u_id row = u) (users w))), w')))"

text \<open>\<open>deactivateUser(id)\<close> of the query model: an update of \<open>is_active\<close> to false on the
  rows with that id.\<close>

definition UserService_deactivate :: "ident \<Rightarrow> world \<Rightarrow> bool thrown \<times> world" where
  "UserService_deactivate ident w =
     (let w' = issue UpdateUsers w in
      case faults w UpdateUsers of
        Some e \<Rightarrow> (Inl (''Database error: '' @ err_message e), w')
      | None \<Rightarrow>
          (case uuid_in ident of
             None \<Rightarrow> (Inl (''Database error: '' @ err_message (invalid_uuid ident)), w')
           | Some u \<Rightarrow>
               (Inr True,
                w'\<lparr>users := map (\<lambda>row. if u_id row = u then row\<lparr>u_is_active := False\<rparr> else row)
                               (users w)\<rparr>)))"


section \<open>Tokens (utils/jwt.utils.js)\<close>

text \<open>
  The token library is an external collaborator. The functions of \<open>jwt.utils.js\<close> take
  its \<open>verify\<close> as a parameter \<open>V\<close>, so that what is proved of them holds for every
  behaviour of the library. \<open>jwt_sign\<close> and \<open>jwt_verify\<close> further down are a symbolic
  model of the library, used to build concrete tokens.
\<close>

datatype jwt_error = JsonWebTokenError | TokenExpiredError | NotBeforeError

record jwt_payload =
  userId :: ident
  email :: string
  role :: string

record verify_options =
  vo_issuer :: string
  vo_audience :: string

record sign_options =
  so_expiresIn :: nat
  so_issuer :: string
  so_audience :: string

type_synonym verifier = "string \<Rightarrow> string \<Rightarrow> verify_options \<Rightarrow> jwt_error + jwt_payload"

text \<open>\<open>env.config.js\<close>: the secret and the two validity windows, in seconds.\<close>

record env =
  JWT_SECRET :: string
  JWT_ACCESS_EXPIRES_IN :: nat
  JWT_REFRESH_EXPIRES_IN :: nat

definition verifyAccessToken :: "verifier \<Rightarrow> env \<Rightarrow> string \<Rightarrow> jwt_error + jwt_payload" where
  "verifyAccessToken V cfg token =
     V token (JWT_SECRET cfg) \<lparr>vo_issuer = ''hr-backend'', vo_audience = ''hr-frontend''\<rparr>"

definition verifyRefreshToken :: "verifier \<Rightarrow> env \<Rightarrow> string \<Rightarrow> jwt_error + jwt_payload" where
  "verifyRefreshToken V cfg token =
     V token (JWT_SECRET cfg) \<lparr>vo_issuer = ''hr-backend'', vo_audience = ''hr-frontend''\<rparr>"

definition extractTokenFromHeader :: "string option \<Rightarrow> string option" where
  "extractTokenFromHeader authHeader =
     (case authHeader of
        None \<Rightarrow> None
      | Some h \<Rightarrow> if h = [] \<or> take 7 h \<noteq> ''Bearer '' then None else Some (drop 7 h))"

text \<open>
  The symbolic library: a signed token records what was signed and with which secret, and
  \<open>decode\<close> is the library's reading of a token string (\<open>None\<close> for a malformed one). A
  signature is valid when the secrets agree. \<open>verify\<close> checks the signature, then the
  expiry against the clock \<open>now\<close>, then audience and issuer.
\<close>

record signed_token =
  st_payload :: jwt_payload
  st_secret :: string
  st_exp :: nat
  st_issuer :: string
  st_audience :: string

definition jwt_sign :: "nat \<Rightarrow> jwt_payload \<Rightarrow> string \<Rightarrow> sign_options \<Rightarrow> signed_token" where
  "jwt_sign now payload secret opts =
     \<lparr>st_payload = payload, st_secret = secret, st_exp = now + so_expiresIn opts,
      st_issuer = so_issuer opts, st_audience = so_audience opts\<rparr>"

definition jwt_verify :: "(string \<Rightarrow> signed_token option) \<Rightarrow> nat \<Rightarrow> verifier" where
  "jwt_verify decode now token secret opts =
     (case decode token of
        None \<Rightarrow> Inl JsonWebTokenError
      | Some t \<Rightarrow>
          if st_secret t \<noteq> secret then Inl JsonWebTokenError
          else if st_exp t \<le> now then Inl TokenExpiredError
          else if st_audience t \<noteq> vo_audience opts then Inl JsonWebTokenError
          else if st_issuer t \<noteq> vo_issuer opts then Inl JsonWebTokenError
          else Inr (st_payload t))"

definition generateAccessToken :: "nat \<Rightarrow> env \<Rightarrow> jwt_payload \<Rightarrow> signed_token" where
  "generateAccessToken now cfg payload =
     jwt_sign now payload (JWT_SECRET cfg)
       \<lparr>so_expiresIn = JWT_ACCESS_EXPIRES_IN cfg, so_issuer = ''hr-backend'',
        so_audience = ''hr-frontend''\<rparr>"

definition generateRefreshToken :: "nat \<Rightarrow> env \<Rightarrow> jwt_payload \<Rightarrow> signed_token" where
  "generateRefreshToken now cfg payload =
     jwt_sign now payload (JWT_SECRET cfg)
       \<lparr>so_expiresIn = JWT_REFRESH_EXPIRES_IN cfg, so_issuer = ''hr-backend'',
        so_audience = ''hr-frontend''\<rparr>"

record token_pair =
  accessToken :: signed_token
  refreshToken :: signed_token
  expiresIn :: nat

definition generateTokenPair :: "nat \<Rightarrow> env \<Rightarrow> jwt_payload \<Rightarrow> token_pair" where
  "generateTokenPair now cfg payload =
     \<lparr>accessToken = generateAccessToken now cfg payload,
      refreshToken = generateRefreshToken now cfg payload,
      expiresIn = JWT_ACCESS_EXPIRES_IN cfg\<rparr>"

section \<open>Authentication (middleware/auth.middleware.js, controllers/auth.controller.js)\<close>

text \<open>\<open>req.user\<close>, as \<open>authenticateToken\<close> fills it.\<close>

record req_user =
  ru_id :: ident
  ru_email :: string
  ru_name :: string
  ru_role :: string
  ru_department :: "string option"
  ru_position :: "string option"

text \<open>The middleware either answers the request itself (\<open>Inl\<close>) or calls \<open>next()\<close> with
  \<open>req.user\<close> set (\<open>Inr\<close>).\<close>

definition authenticateToken ::
  "verifier \<Rightarrow> env \<Rightarrow> string option \<Rightarrow> world \<Rightarrow> (unit response + req_user) \<times> world" where
  "authenticateToken V cfg authHeader w =
     (case extractTokenFromHeader authHeader of
        None \<Rightarrow> (Inl (sendUnauthorizedResponse ''Access token is required''), w)
      | Some token \<Rightarrow>
          if token = [] then (Inl (sendUnauthorizedResponse ''Access token is required''), w)
          else
            (case verifyAccessToken V cfg token of
               Inl JsonWebTokenError \<Rightarrow> (Inl (sendUnauthorizedResponse ''Invalid token''), w)
             | Inl TokenExpiredError \<Rightarrow> (Inl (sendUnauthorizedResponse ''Token has expired''), w)
             | Inl NotBeforeError \<Rightarrow> (Inl (sendUnauthorizedResponse ''Authentication failed''), w)
             | Inr decoded \<Rightarrow>
                 (case UserService_findById (userId decoded) w of
                    (Inl err, w') \<Rightarrow> (Inl (sendUnauthorizedResponse ''Authentication failed''), w')
                  | (Inr None, w') \<Rightarrow> (Inl (sendUnauthorizedResponse ''User not found''), w')
                  | (Inr (Some user), w') \<Rightarrow>
                      if \<not> u_is_active user
                      then (Inl (sendUnauthorizedResponse ''Account is deactivated''), w')
                      else (Inr \<lparr>ru_id = u_id user, ru_email = u_email user,
                                 ru_name = u_name user, ru_role = u_role user,
                                 ru_department = u_department user,
                                 ru_position = u_position user\<rparr>, w'))))"

text \<open>\<open>refreshToken\<close> of the auth controller; \<open>body\<close> is \<open>req.body.refreshToken\<close>.\<close>

definition refreshToken_handler ::
  "verifier \<Rightarrow> nat \<Rightarrow> env \<Rightarrow> string option \<Rightarrow> world \<Rightarrow> token_pair response \<times> world" where
  "refreshToken_handler V now cfg body w =
     (case body of
        None \<Rightarrow> (sendUnauthorizedResponse ''Refresh token is required'', w)
      | Some token \<Rightarrow>
          if token = [] then (sendUnauthorizedResponse ''Refresh token is required'', w)
          else
            (case verifyRefreshToken V cfg token of
               Inl JsonWebTokenError \<Rightarrow> (sendUnauthorizedResponse ''Invalid refresh token'', w)
             | Inl TokenExpiredError \<Rightarrow>
                 (sendUnauthorizedResponse ''Refresh token has expired'', w)
             | Inl NotBeforeError \<Rightarrow> (sendErrorResponse 500 ''Failed to refresh token'' None, w)
             | Inr decoded \<Rightarrow>
                 (case UserService_findById (userId decoded) w of
                    (Inl err, w') \<Rightarrow> (sendErrorResponse 500 ''Failed to refresh token'' None, w')
                  | (Inr None, w') \<Rightarrow> (sendUnauthorizedResponse ''User not found'', w')
                  | (Inr (Some user), w') \<Rightarrow>
                      if \<not> u_is_active user
                      then (sendUnauthorizedResponse ''Account is deactivated'', w')
                      else (sendSuccessResponse 200 ''Token refreshed successfully''
                              (Some (generateTokenPair now cfg
                                 \<lparr>userId = u_id user, email = u_email user,
                                  role = u_role user\<rparr>)), w'))))"


section \<open>Order service (services/order.service.js, model/order.model.js)\<close>

text \<open>An order with its items, \<open>{...order, items}\<close>.\<close>

type_synonym order_with_items = "order_row \<times> item_row list"

definition OrderService_getOrderItems :: "ident \<Rightarrow> world \<Rightarrow> item_row list thrown \<times> world" where
  "OrderService_getOrderItems orderId w =
     (let w' = issue SelectOrderItems w in
      case faults w SelectOrderItems of
        Some e \<Rightarrow> (Inl (err_message e), w')
      | None \<Rightarrow> (Inr (filter (\<lambda>i. i_order_id i = orderId) (order_items w)), w'))"

definition OrderService_findById ::
  "ident \<Rightarrow> world \<Rightarrow> order_with_items option thrown \<times> world" where
  "OrderService_findById ident w =
     (let w' = issue SelectOrders w;
          found = (case faults w SelectOrders of
                     Some e \<Rightarrow> if err_code e \<noteq> ''PGRST116'' then Inl (err_message e) else Inr None
                   | None \<Rightarrow> Inr (single (filter (\<lambda>ord. o_id ord = ident) (orders w))))
      in case found of
           Inl msg \<Rightarrow> (Inl msg, w')
         | Inr None \<Rightarrow> (Inr None, w')
         | Inr (Some ord) \<Rightarrow>
             (case OrderService_getOrderItems ident w' of
                (Inl msg, w'') \<Rightarrow> (Inl msg, w'')
              | (Inr its, w'') \<Rightarrow> (Inr (Some (ord, its)), w'')))"

text \<open>One element of \<open>req.body.items\<close>.\<close>

record item_input =
  product_id :: jsval
  quantity :: jsval
  price :: jsval

record order_data =
  od_user_id :: ident
  od_items :: "item_input list"
  od_status :: string

text \<open>The \<open>for\<close> loop of \<open>create\<close> that checks each item and accumulates \<open>totalAmount\<close>.\<close>

fun total_loop :: "jsnum \<Rightarrow> item_input list \<Rightarrow> jsnum thrown" where
  "total_loop totalAmount [] = Inr totalAmount"
| "total_loop totalAmount (item # rest) =
     (if \<not> truthy (product_id item) \<or> \<not> truthy (quantity item) \<or> \<not> truthy (price item)
      then Inl ''Each item must have product_id, quantity, and price''
      else total_loop
             (js_add totalAmount (js_mul (parseFloat (price item)) (parseInt (quantity item))))
             rest)"

text \<open>\<open>createOrderQuery\<close>: the row handed to the insert; the store assigns the id.\<close>

definition createOrderQuery :: "ident \<Rightarrow> string \<Rightarrow> jsnum \<Rightarrow> ident \<Rightarrow> order_row" where
  "createOrderQuery user_id st total_amount new_id =
     \<lparr>o_id = new_id, o_user_id = user_id,
      o_status = (if st = [] then ''pending'' else st),
      o_total_amount = parseFloat (JNum total_amount)\<rparr>"

definition itemsToInsert :: "ident \<Rightarrow> item_input list \<Rightarrow> item_row list" where
  "itemsToInsert order_id its =
     map (\<lambda>item. \<lparr>i_order_id = order_id, i_product_id = product_id item,
                   i_quantity = parseInt (quantity item),
                   i_price = parseFloat (price item)\<rparr>) its"

definition OrderService_create :: "order_data \<Rightarrow> world \<Rightarrow> order_with_items thrown \<times> world" where
  "OrderService_create orderData w =
     (if od_user_id orderData = [] then (Inl ''User ID is required'', w)
      else if od_items orderData = [] then (Inl ''Order must have at least one item'', w)
      else
        case total_loop (Fin 0) (od_items orderData) of
          Inl msg \<Rightarrow> (Inl msg, w)
        | Inr totalAmount \<Rightarrow>
            (let w1 = issue InsertOrders w in
             case faults w InsertOrders of
               Some orderError \<Rightarrow> (Inl (err_message orderError), w1)
             | None \<Rightarrow>
                 (let createdOrder =
                        createOrderQuery (od_user_id orderData)
                          (if od_status orderData = [] then ''pending'' else od_status orderData)
                          totalAmount (next_order_id w);
                      w2 = w1\<lparr>orders := orders w1 @ [createdOrder]\<rparr>;
                      rows = itemsToInsert (o_id createdOrder) (od_items orderData);
                      w3 = issue InsertOrderItems w2
                  in case faults w InsertOrderItems of
                       Some itemsError \<Rightarrow>
                         (let w4 = issue DeleteOrders w3;
                              w5 = (case faults w DeleteOrders of
                                      Some rollbackError \<Rightarrow> w4
                                    | None \<Rightarrow>
                                        w4\<lparr>orders :=
                                             filter (\<lambda>ord. o_id ord \<noteq> o_id createdOrder)
                                                    (orders w4)\<rparr>)
                          in (Inl (err_message itemsError), w5))
                     | None \<Rightarrow>
                         (Inr (createdOrder, rows),
                          w3\<lparr>order_items := order_items w3 @ rows\<rparr>))))"

section \<open>Order controller (controllers/order.controller.js)\<close>

text \<open>\<open>haystack.includes(needle)\<close> of JavaScript strings.\<close>

fun str_includes :: "string \<Rightarrow> string \<Rightarrow> bool" where
  "str_includes [] needle = (needle = [])"
| "str_includes (c # cs) needle = (take (length needle) (c # cs) = needle \<or> str_includes cs needle)"

definition getOrderById ::
  "req_user \<Rightarrow> ident \<Rightarrow> world \<Rightarrow> order_with_items response \<times> world" where
  "getOrderById user ident w =
     (if ident = [] then (sendErrorResponse 400 ''Order ID is required'' None, w)
      else
        case OrderService_findById ident w of
          (Inl msg, w') \<Rightarrow> (sendErrorResponse 500 ''Failed to fetch order'' (Some msg), w')
        | (Inr None, w') \<Rightarrow> (sendNotFoundResponse ''Order not found'', w')
        | (Inr (Some ord), w') \<Rightarrow>
            if ru_role user \<noteq> ''admin'' \<and> o_user_id (fst ord) \<noteq> ru_id user
            then (sendErrorResponse 403 ''Access denied'' None, w')
            else (sendSuccessResponse 200 ''Order retrieved successfully'' (Some ord), w'))"

text \<open>The per-item checks of \<open>createOrder\<close>: the first failing check of the first failing
  item decides the message.\<close>

fun validate_items :: "item_input list \<Rightarrow> string option" where
  "validate_items [] = None"
| "validate_items (item # rest) =
     (if \<not> truthy (product_id item) \<or> \<not> truthy (quantity item) \<or> \<not> truthy (price item)
      then Some ''Each item must have product_id, quantity, and price''
      else if isNaN (quantity item) \<or> js_lt (parseInt (quantity item)) (Fin 1)
      then Some ''Invalid quantity value''
      else if isNaN (price item) \<or> js_lt (parseFloat (price item)) (Fin 0)
      then Some ''Invalid price value''
      else validate_items rest)"

text \<open>
  \<open>createOrder\<close>. \<open>req.body.items\<close> is \<open>None\<close> when it is missing or not an array;
  \<open>req.body.status\<close> is the empty string when it is missing.
\<close>

definition createOrder ::
  "req_user \<Rightarrow> item_input list option \<Rightarrow> string \<Rightarrow> world \<Rightarrow> order_with_items response \<times> world" where
  "createOrder user body_items body_status w =
     (case body_items of
        None \<Rightarrow> (sendErrorResponse 400 ''Order must have at least one item'' None, w)
      | Some its \<Rightarrow>
          if its = [] then (sendErrorResponse 400 ''Order must have at least one item'' None, w)
          else
            (case validate_items its of
               Some msg \<Rightarrow> (sendErrorResponse 400 msg None, w)
             | None \<Rightarrow>
                 (case OrderService_create
                         \<lparr>od_user_id = ru_id user, od_items = its,
                          od_status = (if body_status = [] then ''pending'' else body_status)\<rparr> w of
                    (Inr ord, w') \<Rightarrow>
                      (sendSuccessResponse 201 ''Order created successfully'' (Some ord), w')
                  | (Inl msg, w') \<Rightarrow>
                      if str_includes msg ''required'' \<or> str_includes msg ''must have''
                      then (sendErrorResponse 400 msg None, w')
                      else (sendErrorResponse 500 ''Failed to create order'' (Some msg), w'))))"


section \<open>Category service and controller\<close>

definition CategoryService_findById ::
  "ident \<Rightarrow> world \<Rightarrow> category_row option thrown \<times> world" where
  "CategoryService_findById ident w =
     (let w' = issue SelectCategories w in
      case faults w SelectCategories of
        Some e \<Rightarrow>
          if err_code e \<noteq> ''PGRST116'' then (Inl (err_message e), w') else (Inr None, w')
      | None \<Rightarrow> (Inr (single (filter (\<lambda>c. c_id c = ident) (categories w))), w'))"

text \<open>
  The delete statement on \<open>categories\<close>. The schema declares \<open>products.category_id\<close>
  with \<open>ON DELETE SET NULL\<close>, so the store clears the references of the deleted row.
\<close>

definition delete_category_rows :: "ident \<Rightarrow> world \<Rightarrow> world" where
  "delete_category_rows ident w =
     w\<lparr>categories := filter (\<lambda>c. c_id c \<noteq> ident) (categories w),
       products := map (\<lambda>p. if p_category_id p = Some ident
                               then p\<lparr>p_category_id := None\<rparr> else p) (products w)\<rparr>"

text \<open>
  \<open>CategoryService.delete\<close>. The check for products selects at most one id of a
  referencing product; when that select fails, \<open>products\<close> is \<open>null\<close>, the error is
  written to the console and execution goes on.
\<close>

definition CategoryService_delete :: "ident \<Rightarrow> world \<Rightarrow> bool thrown \<times> world" where
  "CategoryService_delete ident w =
     (case CategoryService_findById ident w of
        (Inl msg, w1) \<Rightarrow> (Inl msg, w1)
      | (Inr None, w1) \<Rightarrow> (Inl ''Category not found'', w1)
      | (Inr (Some existing), w1) \<Rightarrow>
          (let w2 = issue SelectProducts w1;
               found = (case faults w SelectProducts of
                          Some productsError \<Rightarrow> None
                        | None \<Rightarrow>
                            Some (take 1 (map p_id
                                    (filter (\<lambda>p. p_category_id p = Some ident) (products w)))))
           in case found of
                Some (x # xs) \<Rightarrow> (Inl ''Cannot delete category with existing products'', w2)
              | _ \<Rightarrow>
                  (let w3 = issue DeleteCategories w2 in
                   case faults w DeleteCategories of
                     Some e \<Rightarrow> (Inl (err_message e), w3)
                   | None \<Rightarrow> (Inr True, delete_category_rows ident w3))))"

definition deleteCategory :: "ident \<Rightarrow> world \<Rightarrow> unit response \<times> world" where
  "deleteCategory ident w =
     (if ident = [] then (sendErrorResponse 400 ''Category ID is required'' None, w)
      else
        case CategoryService_delete ident w of
          (Inr ok, w') \<Rightarrow> (sendSuccessResponse 200 ''Category deleted successfully'' None, w')
        | (Inl msg, w') \<Rightarrow>
            if str_includes msg ''not found''
            then (sendNotFoundResponse ''Category not found'', w')
            else if str_includes msg ''existing products''
            then (sendErrorResponse 400 msg None, w')
            else (sendErrorResponse 500 ''Failed to delete category'' (Some msg), w'))"

section \<open>User controller\<close>

definition deactivateUser :: "req_user \<Rightarrow> ident \<Rightarrow> world \<Rightarrow> unit response \<times> world" where
  "deactivateUser user ident w =
     (case UserService_findById ident w of
        (Inl msg, w1) \<Rightarrow> (sendErrorResponse 500 ''Failed to deactivate user'' None, w1)
      | (Inr None, w1) \<Rightarrow> (sendNotFoundResponse ''User not found'', w1)
      | (Inr (Some existingUser), w1) \<Rightarrow>
          if ident = ru_id user
          then (sendErrorResponse 400 ''You cannot deactivate your own account'' None, w1)
          else
            (case UserService_deactivate ident w1 of
               (Inl msg, w2) \<Rightarrow> (sendErrorResponse 500 ''Failed to deactivate user'' None, w2)
             | (Inr ok, w2) \<Rightarrow>
                 (sendSuccessResponse 200 ''User deactivated successfully'' None, w2)))"


section \<open>Paginated lists\<close>

text \<open>
  \<open>parseInt\<close> of a query-string value. A string is a list of code units below 256, so
  the white space and line terminators of the language that a string can hold are the
  seven below (U+00A0 is the no-break space). Leading white space is skipped, a sign is
  read, a \<open>0x\<close> prefix selects radix 16, and the longest run of digits is the value; no
  digit at all gives \<open>NaN\<close>. A missing parameter is \<open>undefined\<close>, which also gives
  \<open>NaN\<close>.
\<close>

definition is_space :: "char \<Rightarrow> bool" where
  "is_space c =
     (c \<in> set [CHR 0x09, CHR 0x0A, CHR 0x0B, CHR 0x0C, CHR 0x0D, CHR 0x20, CHR 0xA0])"

definition digit_of :: "char \<Rightarrow> nat option" where
  "digit_of c =
     (let n = (of_char c :: nat) in
      if 48 \<le> n \<and> n \<le> 57 then Some (n - 48)
      else if 97 \<le> n \<and> n \<le> 102 then Some (n - 87)
      else if 65 \<le> n \<and> n \<le> 70 then Some (n - 55)
      else None)"

fun read_digits :: "nat \<Rightarrow> nat option \<Rightarrow> string \<Rightarrow> nat option" where
  "read_digits radix acc [] = acc"
| "read_digits radix acc (c # cs) =
     (case digit_of c of
        None \<Rightarrow> acc
      | Some d \<Rightarrow>
          if d < radix
          then read_digits radix (Some (radix * (case acc of None \<Rightarrow> 0 | Some a \<Rightarrow> a) + d)) cs
          else acc)"

definition parseInt_str :: "string \<Rightarrow> jsnum" where
  "parseInt_str s =
     (let s1 = dropWhile is_space s;
          negative = (take 1 s1 = ''-'');
          s2 = (if take 1 s1 = ''-'' \<or> take 1 s1 = ''+'' then drop 1 s1 else s1);
          hex = (take 2 s2 = ''0x'' \<or> take 2 s2 = ''0X'');
          s3 = (if hex then drop 2 s2 else s2)
      in case read_digits (if hex then 16 else 10) None s3 of
           None \<Rightarrow> NaN
         | Some n \<Rightarrow> fl (if negative then - of_nat n else of_nat n))"

definition parseInt_query :: "string option \<Rightarrow> jsnum" where
  "parseInt_query q = (case q of None \<Rightarrow> NaN | Some s \<Rightarrow> parseInt_str s)"

text \<open>
  The store's answer to \<open>.range(from, to)\<close> on rows in the requested order, when an exact
  count is requested with the rows (\<open>count: 'exact'\<close>, as all three list queries do): the
  rows at offsets \<open>from\<close> to \<open>to\<close> that exist. An offset equal to the number of rows
  gives no rows; an offset beyond it is refused (status 416, \<open>Requested range not
  satisfiable\<close>). Bounds that are not finite, or a negative offset, are not a request the
  store can serve either.
\<close>

definition select_range :: "jsnum \<Rightarrow> jsnum \<Rightarrow> 'a list \<Rightarrow> 'a list option" where
  "select_range rfrom rto rows =
     (case (rfrom, rto) of
        (Fin a, Fin b) \<Rightarrow>
          if 0 \<le> a \<and> \<lfloor>a\<rfloor> \<le> int (length rows)
          then Some (take (nat (\<lfloor>b\<rfloor> - \<lfloor>a\<rfloor> + 1)) (drop (nat \<lfloor>a\<rfloor>) rows))
          else None
      | _ \<Rightarrow> None)"

text \<open>The query builders \<open>getAllProductsQuery\<close>, \<open>getAllOrdersQuery\<close> and
  \<open>getOrdersByUserQuery\<close> compute the same range.\<close>

definition query_range :: "jsnum \<Rightarrow> jsnum \<Rightarrow> jsnum \<times> jsnum" where
  "query_range page limit =
     (let rfrom = js_mul (js_sub page (Fin 1)) limit;
          rto = js_sub (js_add rfrom limit) (Fin 1)
      in (rfrom, rto))"

text \<open>
  A paginated select with an exact count. Tables are kept in insertion order and every
  list is ordered newest first. The result is \<open>(data || [], count || 0)\<close>.
\<close>

definition paged_select ::
  "call \<Rightarrow> 'a list \<Rightarrow> jsnum \<Rightarrow> jsnum \<Rightarrow> world \<Rightarrow> ('a list \<times> jsnum) thrown \<times> world" where
  "paged_select c rows page limit w =
     (let w' = issue c w; (rfrom, rto) = query_range page limit in
      case faults w c of
        Some e \<Rightarrow> (Inl (err_message e), w')
      | None \<Rightarrow>
          (case select_range rfrom rto (rev rows) of
             None \<Rightarrow> (Inl ''Requested range not satisfiable'', w')
           | Some page_rows \<Rightarrow> (Inr (page_rows, Fin (of_nat (length rows))), w')))"

definition ProductService_findAll ::
  "jsnum \<Rightarrow> jsnum \<Rightarrow> world \<Rightarrow> (product_row list \<times> jsnum) thrown \<times> world" where
  "ProductService_findAll page limit w = paged_select SelectProducts (products w) page limit w"

definition OrderService_findAll ::
  "jsnum \<Rightarrow> jsnum \<Rightarrow> world \<Rightarrow> (order_row list \<times> jsnum) thrown \<times> world" where
  "OrderService_findAll page limit w = paged_select SelectOrders (orders w) page limit w"

text \<open>\<open>orders.user_id\<close> is a UUID column as well: the filter on it reads the id as the
  user lookup does.\<close>

definition OrderService_findByUser ::
  "ident \<Rightarrow> jsnum \<Rightarrow> jsnum \<Rightarrow> world \<Rightarrow> (order_row list \<times> jsnum) thrown \<times> world" where
  "OrderService_findByUser uid page limit w =
     (case uuid_in uid of
        Some u \<Rightarrow>
          paged_select SelectOrders (filter (\<lambda>ord. o_user_id ord = u) (orders w)) page limit w
      | None \<Rightarrow>
          (Inl (err_message (case faults w SelectOrders of
                               Some e \<Rightarrow> e
                             | None \<Rightarrow> invalid_uuid uid)),
           issue SelectOrders w))"

record pagination =
  currentPage :: jsnum
  totalPages :: jsnum
  totalItems :: jsnum
  itemsPerPage :: jsnum
  hasNextPage :: bool
  hasPrevPage :: bool

text \<open>The payload \<open>{items, pagination}\<close> of a paginated response.\<close>

type_synonym 'a paginated = "'a list \<times> pagination"

definition sendPaginatedResponse ::
  "'a list \<Rightarrow> jsnum \<Rightarrow> jsnum \<Rightarrow> jsnum \<Rightarrow> string \<Rightarrow> 'a paginated response" where
  "sendPaginatedResponse rows page limit total_count msg =
     (let pages = Math_ceil (js_div total_count limit) in
      sendSuccessResponse 200 msg
        (Some (rows,
           \<lparr>currentPage = page, totalPages = pages, totalItems = total_count, itemsPerPage = limit,
            hasNextPage = js_lt page pages, hasPrevPage = js_gt page (Fin 1)\<rparr>)))"

text \<open>The three list handlers. Each starts with the guard
  \<open>page < 1 || limit < 1 || limit > 100\<close>.\<close>

definition getAllProducts ::
  "string option \<Rightarrow> string option \<Rightarrow> world \<Rightarrow> product_row paginated response \<times> world" where
  "getAllProducts query_page query_limit w =
     (let page = or_default (parseInt_query query_page) (Fin 1);
          limit = or_default (parseInt_query query_limit) (Fin 10)
      in if js_lt page (Fin 1) \<or> js_lt limit (Fin 1) \<or> js_gt limit (Fin 100)
         then (sendErrorResponse 400 ''Invalid pagination parameters'' None, w)
         else
           case ProductService_findAll page limit w of
             (Inr (rows, total_count), w') \<Rightarrow>
               (sendPaginatedResponse rows page limit total_count ''Products retrieved successfully'', w')
           | (Inl msg, w') \<Rightarrow> (sendErrorResponse 500 ''Failed to fetch products'' (Some msg), w'))"

definition getAllOrders ::
  "string option \<Rightarrow> string option \<Rightarrow> world \<Rightarrow> order_row paginated response \<times> world" where
  "getAllOrders query_page query_limit w =
     (let page = or_default (parseInt_query query_page) (Fin 1);
          limit = or_default (parseInt_query query_limit) (Fin 10)
      in if js_lt page (Fin 1) \<or> js_lt limit (Fin 1) \<or> js_gt limit (Fin 100)
         then (sendErrorResponse 400 ''Invalid pagination parameters'' None, w)
         else
           case OrderService_findAll page limit w of
             (Inr (rows, total_count), w') \<Rightarrow>
               (sendPaginatedResponse rows page limit total_count ''Orders retrieved successfully'', w')
           | (Inl msg, w') \<Rightarrow> (sendErrorResponse 500 ''Failed to fetch orders'' (Some msg), w'))"

definition getUserOrders ::
  "req_user \<Rightarrow> string option \<Rightarrow> string option \<Rightarrow> world
     \<Rightarrow> order_row paginated response \<times> world" where
  "getUserOrders user query_page query_limit w =
     (let page = or_default (parseInt_query query_page) (Fin 1);
          limit = or_default (parseInt_query query_limit) (Fin 10)
      in if js_lt page (Fin 1) \<or> js_lt limit (Fin 1) \<or> js_gt limit (Fin 100)
         then (sendErrorResponse 400 ''Invalid pagination parameters'' None, w)
         else
           case OrderService_findByUser (ru_id user) page limit w of
             (Inr (rows, total_count), w') \<Rightarrow>
               (sendPaginatedResponse rows page limit total_count ''Orders retrieved successfully'', w')
           | (Inl msg, w') \<Rightarrow> (sendErrorResponse 500 ''Failed to fetch orders'' (Some msg), w'))"

section \<open>Order totals as the specification words them\<close>



text \<open>The same sum accumulated left to right in binary64, each product and each partial
  sum rounded.\<close>

definition line_amount :: "item_input \<Rightarrow> jsnum" where
  "line_amount item = js_mul (parseFloat (price item)) (parseInt (quantity item))"




section \<open>Example data\<close>

text \<open>A small store used to run the handlers on concrete requests.\<close>

definition no_faults :: "call \<Rightarrow> store_error option" where
  "no_faults c = None"

definition example_world :: world where
  "example_world =
     \<lparr>users = [\<lparr>u_id = ''a0eebc99-9c0b-4ef8-bb6d-6bb9bd380a11'', u_email = ''root@example.org'', u_name = ''Root'',
                u_role = ''admin'', u_department = None, u_position = None, u_is_active = True\<rparr>,
               \<lparr>u_id = ''b1ffcd00-0d1c-4fa9-8c7e-7cc0ce491b22'', u_email = ''ann@example.org'', u_name = ''Ann'',
                u_role = ''user'', u_department = None, u_position = None, u_is_active = True\<rparr>,
               \<lparr>u_id = ''c2aade11-1e2d-4ab0-9d8f-8dd1df5a2c33'', u_email = ''bob@example.org'', u_name = ''Bob'',
                u_role = ''user'', u_department = None, u_position = None, u_is_active = True\<rparr>],
      categories = [\<lparr>c_id = ''1'', c_name = ''Herbal Teas'', c_description = None\<rparr>,
                    \<lparr>c_id = ''2'', c_name = ''Supplements'', c_description = None\<rparr>],
      products = [\<lparr>p_id = ''1'', p_name = ''Chamomile Tea'', p_category_id = Some ''1''\<rparr>],
      orders = [\<lparr>o_id = ''7'', o_user_id = ''b1ffcd00-0d1c-4fa9-8c7e-7cc0ce491b22'', o_status = ''pending'',
                 o_total_amount = Fin 3\<rparr>],
      order_items = [\<lparr>i_order_id = ''7'', i_product_id = JNum (Fin 1), i_quantity = Fin 3,
                      i_price = Fin 1\<rparr>],
      next_order_id = ''8'',
      journal = [],
      faults = no_faults\<rparr>"

text \<open>The principal \<open>authenticateToken\<close> resolves for a user row.\<close>

definition principal_of :: "user_row \<Rightarrow> req_user" where
  "principal_of u =
     \<lparr>ru_id = u_id u, ru_email = u_email u, ru_name = u_name u, ru_role = u_role u,
      ru_department = u_department u, ru_position = u_position u\<rparr>"

definition example_env :: env where
  "example_env =
     \<lparr>JWT_SECRET = ''your-secret-key'', JWT_ACCESS_EXPIRES_IN = 900,
      JWT_REFRESH_EXPIRES_IN = 604800\<rparr>"

text \<open>A fault plan under which the listed kinds of statement fail.\<close>

definition failing :: "call list \<Rightarrow> call \<Rightarrow> store_error option" where
  "failing cs c =
     (if c \<in> set cs then Some \<lparr>err_message = ''connection reset'', err_code = ''08006''\<rparr>
      else None)"

text \<open>A fault plan that gives each failing kind of statement its own error message.\<close>

definition failing_with :: "(call \<times> string) list \<Rightarrow> call \<Rightarrow> store_error option" where
  "failing_with plan c =
     map_option (\<lambda>m. \<lparr>err_message = m, err_code = ''XX000''\<rparr>) (map_of plan c)"

text \<open>
  What the library reads off two token strings: the refresh token and the access token
  that \<open>generateTokenPair\<close> signed for Ann at time 0.
\<close>

definition example_decode :: "string \<Rightarrow> signed_token option" where
  "example_decode s =
     (if s = ''refresh-1''
      then Some (generateRefreshToken 0 example_env
                   \<lparr>userId = ''b1ffcd00-0d1c-4fa9-8c7e-7cc0ce491b22'', email = ''ann@example.org'',
                    role = ''user''\<rparr>)
      else if s = ''access-1''
      then Some (generateAccessToken 0 example_env
                   \<lparr>userId = ''b1ffcd00-0d1c-4fa9-8c7e-7cc0ce491b22'', email = ''ann@example.org'',
                    role = ''user''\<rparr>)
      else None)"

section \<open>Verified properties\<close>

lemmas example_eval = example_world_def no_faults_def principal_of_def issue_def single_def
  Let_def

subsection \<open>Response codes\<close>

lemma status_sendUnauthorizedResponse [simp]:
  "status (sendUnauthorizedResponse msg :: 'd response) = 401"
  by (simp add: sendUnauthorizedResponse_def sendErrorResponse_def)

lemma authenticateToken_rejects_401:
  "authenticateToken V cfg h w = (Inl r, w') \<Longrightarrow> status r = 401"
  by (auto simp: authenticateToken_def
      split: option.splits if_splits sum.splits jwt_error.splits prod.splits)

subsection \<open>Ownership check of \<open>getOrderById\<close>\<close>

text \<open>
  Claim C6. For an order that exists (the service finds it), fetching it by id succeeds
  exactly when the principal's role is admin or the order's \<open>user_id\<close> is the principal's
  id; success is a 200 carrying the order, and every other principal receives 403. That
  signal differs from the one for an order that does not exist (404) and from every
  rejection of the authentication step (401).
\<close>

theorem getOrderById_ownership:
  "(ident \<noteq> [] \<and> OrderService_findById ident w = (Inr (Some ord), w') \<longrightarrow>
      (success (fst (getOrderById user ident w)) \<longleftrightarrow>
         ru_role user = ''admin'' \<or> o_user_id (fst ord) = ru_id user) \<and>
      (success (fst (getOrderById user ident w)) \<longrightarrow>
         status (fst (getOrderById user ident w)) = 200 \<and>
         data (fst (getOrderById user ident w)) = Some ord) \<and>
      (\<not> success (fst (getOrderById user ident w)) \<longrightarrow>
         status (fst (getOrderById user ident w)) = 403))
   \<and> (ident2 \<noteq> [] \<and> OrderService_findById ident2 w = (Inr None, w2) \<longrightarrow>
         status (fst (getOrderById user ident2 w)) = 404)
   \<and> (authenticateToken V cfg h w = (Inl r, w3) \<longrightarrow> status r = 401)"
  by (auto simp: getOrderById_def sendErrorResponse_def sendSuccessResponse_def
      sendNotFoundResponse_def dest: authenticateToken_rejects_401)

theorem getOrderById_ownership_witness:
  "(\<exists>ord w'. OrderService_findById ''7'' example_world = (Inr (Some ord), w'))
   \<and> status (fst (getOrderById (principal_of (users example_world ! 2)) ''7'' example_world)) = 403
   \<and> status (fst (getOrderById (principal_of (users example_world ! 1)) ''7'' example_world)) = 200
   \<and> status (fst (getOrderById (principal_of (users example_world ! 0)) ''7'' example_world)) = 200
   \<and> status (fst (getOrderById (principal_of (users example_world ! 2)) ''9'' example_world)) = 404
   \<and> (\<exists>r w3. authenticateToken (\<lambda>t s opts. Inl TokenExpiredError) example_env
         (Some ''Bearer abc'') example_world = (Inl r, w3) \<and> status r = 401)"
proof -
  obtain ord w' where found: "OrderService_findById ''7'' example_world = (Inr (Some ord), w')"
    and owner: "o_user_id (fst ord) = ''b1ffcd00-0d1c-4fa9-8c7e-7cc0ce491b22''"
    by (simp add: OrderService_findById_def OrderService_getOrderItems_def example_eval)
  obtain w2 where missing: "OrderService_findById ''9'' example_world = (Inr None, w2)"
    by (simp add: OrderService_findById_def OrderService_getOrderItems_def example_eval)
  obtain r w3 where rejected:
    "authenticateToken (\<lambda>t s opts. Inl TokenExpiredError) example_env
         (Some ''Bearer abc'') example_world = (Inl r, w3)"
    by (simp add: authenticateToken_def extractTokenFromHeader_def verifyAccessToken_def)
  note inst = getOrderById_ownership [of "''7''" example_world ord w' _ "''9''" w2 _ _ _ r w3]
  have bob:
    "status (fst (getOrderById (principal_of (users example_world ! 2)) ''7'' example_world)) = 403"
    using inst [of "principal_of (users example_world ! 2)"] found owner
    by (simp add: example_eval)
  have ann:
    "status (fst (getOrderById (principal_of (users example_world ! 1)) ''7'' example_world)) = 200"
    using inst [of "principal_of (users example_world ! 1)"] found owner
    by (simp add: example_eval)
  have root:
    "status (fst (getOrderById (principal_of (users example_world ! 0)) ''7'' example_world)) = 200"
    using inst [of "principal_of (users example_world ! 0)"] found owner
    by (simp add: example_eval)
  have gone:
    "status (fst (getOrderById (principal_of (users example_world ! 2)) ''9'' example_world)) = 404"
    using inst [of "principal_of (users example_world ! 2)"] missing by simp
  have expired: "status r = 401"
    using inst [of _ "\<lambda>t s opts. Inl TokenExpiredError" example_env "Some ''Bearer abc''"]
      rejected by simp
  show ?thesis
    using found bob ann root gone rejected expired by blast
qed

subsection \<open>The journal\<close>

lemma issue_simps [simp]:
  "faults (issue c w) = faults w"
  "users (issue c w) = users w"
  "categories (issue c w) = categories w"
  "products (issue c w) = products w"
  "orders (issue c w) = orders w"
  "order_items (issue c w) = order_items w"
  "next_order_id (issue c w) = next_order_id w"
  "journal (issue c w) = journal w @ [c]"
  by (simp_all add: issue_def)

subsection \<open>Self-deactivation guard\<close>

lemma UserService_findById_world:
  "snd (UserService_findById ident w) = issue SelectUsers w"
  by (simp add: UserService_findById_def Let_def split: option.splits)

lemma UserService_findById_eq:
  "UserService_findById ident w = (fst (UserService_findById ident w), issue SelectUsers w)"
  by (simp add: prod_eq_iff UserService_findById_world)

lemma UserService_findById_found:
  "UserService_findById ident w = (Inr (Some u), w1) \<Longrightarrow> w1 = issue SelectUsers w"
  using UserService_findById_world [of ident w] by simp

lemma deactivateUser_self:
  "deactivateUser user (ru_id user) w =
     ((case fst (UserService_findById (ru_id user) w) of
         Inl msg \<Rightarrow> sendErrorResponse 500 ''Failed to deactivate user'' None
       | Inr None \<Rightarrow> sendNotFoundResponse ''User not found''
       | Inr (Some existingUser) \<Rightarrow>
           sendErrorResponse 400 ''You cannot deactivate your own account'' None),
      issue SelectUsers w)"
proof -
  obtain r where r: "UserService_findById (ru_id user) w = (r, issue SelectUsers w)"
    using UserService_findById_eq by blast
  show ?thesis
    by (simp add: deactivateUser_def r split: sum.splits option.splits)
qed

lemmas uuid_eval = uuid_in_def uuid_out_def is_hex_def lower_hex_def eval_nat_numeral

lemma uuid_in_examples:
  "uuid_in ''a0eebc99-9c0b-4ef8-bb6d-6bb9bd380a11'' = Some ''a0eebc99-9c0b-4ef8-bb6d-6bb9bd380a11''"
  "uuid_in ''b1ffcd00-0d1c-4fa9-8c7e-7cc0ce491b22'' = Some ''b1ffcd00-0d1c-4fa9-8c7e-7cc0ce491b22''"
  "uuid_in ''c2aade11-1e2d-4ab0-9d8f-8dd1df5a2c33'' = Some ''c2aade11-1e2d-4ab0-9d8f-8dd1df5a2c33''"
  "uuid_in ''A0EEBC99-9C0B-4EF8-BB6D-6BB9BD380A11'' = Some ''a0eebc99-9c0b-4ef8-bb6d-6bb9bd380a11''"
  "uuid_in ''{a0eebc999c0b4ef8bb6d6bb9bd380a11}'' = Some ''a0eebc99-9c0b-4ef8-bb6d-6bb9bd380a11''"
  "uuid_in ''a0eebc99-9c0b-4ef8-bb6d-6bb9bd380a1'' = None"
  "uuid_in ''7'' = None"
  by (simp_all add: uuid_eval)

text \<open>
  Claim C9 says that a deactivate request aimed at the acting principal's own account is
  rejected before any write. The handler compares the route parameter with the
  principal's id as strings (\<open>id === req.user.id\<close>), while the store compares ids as
  UUIDs. The administrator of the example store, whose id the store prints as
  \<open>a0eebc99-9c0b-4ef8-bb6d-6bb9bd380a11\<close>, sends that id in upper case: the lookup
  finds the account, the comparison fails, the update is issued, the answer is 200 and
  the administrator's own account is inactive afterwards. With the id spelled as the
  store prints it, the same request is answered 400 and nothing is written.
\<close>

theorem deactivateUser_own_id_in_upper_case:
  "ru_id (principal_of (users example_world ! 0)) = ''a0eebc99-9c0b-4ef8-bb6d-6bb9bd380a11''
   \<and> fst (UserService_findById ''A0EEBC99-9C0B-4EF8-BB6D-6BB9BD380A11'' example_world)
       = Inr (Some (users example_world ! 0))
   \<and> fst (deactivateUser (principal_of (users example_world ! 0))
            ''A0EEBC99-9C0B-4EF8-BB6D-6BB9BD380A11'' example_world)
       = sendSuccessResponse 200 ''User deactivated successfully'' None
   \<and> journal (snd (deactivateUser (principal_of (users example_world ! 0))
            ''A0EEBC99-9C0B-4EF8-BB6D-6BB9BD380A11'' example_world))
       = [SelectUsers, UpdateUsers]
   \<and> map u_is_active (users (snd (deactivateUser (principal_of (users example_world ! 0))
            ''A0EEBC99-9C0B-4EF8-BB6D-6BB9BD380A11'' example_world)))
       = [False, True, True]
   \<and> deactivateUser (principal_of (users example_world ! 0))
            ''a0eebc99-9c0b-4ef8-bb6d-6bb9bd380a11'' example_world
       = (sendErrorResponse 400 ''You cannot deactivate your own account'' None,
          issue SelectUsers example_world)"
  by (simp add: deactivateUser_def UserService_findById_def UserService_deactivate_def
      uuid_in_examples example_eval)

subsection \<open>Category deletion\<close>

lemma CategoryService_findById_found:
  "CategoryService_findById ident w = (Inr (Some c), w1) \<Longrightarrow> w1 = issue SelectCategories w"
  by (simp add: CategoryService_findById_def Let_def split: option.splits if_splits)

lemma referencing_products:
  "(\<exists>p \<in> set ps. p_category_id p = Some ident) \<longleftrightarrow>
     take 1 (map p_id (filter (\<lambda>p. p_category_id p = Some ident) ps)) \<noteq> []"
  by (simp add: filter_empty_conv)

lemma CategoryService_delete_in_use:
  assumes "CategoryService_findById ident w = (Inr (Some cat), w1)"
    and "faults w SelectProducts = None"
    and "\<exists>p \<in> set (products w). p_category_id p = Some ident"
  shows "CategoryService_delete ident w =
     (Inl ''Cannot delete category with existing products'',
      issue SelectProducts (issue SelectCategories w))"
proof -
  have found: "CategoryService_findById ident w = (Inr (Some cat), issue SelectCategories w)"
    using assms(1) CategoryService_findById_found [OF assms(1)] by simp
  obtain x xs where "take 1 (map p_id (filter (\<lambda>p. p_category_id p = Some ident) (products w))) = x # xs"
    using assms(3) referencing_products [of "products w" ident] by (meson list.exhaust)
  then show ?thesis
    by (simp add: CategoryService_delete_def found assms(2) Let_def)
qed

lemma CategoryService_delete_unused:
  assumes "CategoryService_findById ident w = (Inr (Some cat), w1)"
    and "faults w SelectProducts = None"
    and "\<not> (\<exists>p \<in> set (products w). p_category_id p = Some ident)"
    and "faults w DeleteCategories = None"
  shows "CategoryService_delete ident w =
     (Inr True,
      delete_category_rows ident
        (issue DeleteCategories (issue SelectProducts (issue SelectCategories w))))"
proof -
  have found: "CategoryService_findById ident w = (Inr (Some cat), issue SelectCategories w)"
    using assms(1) CategoryService_findById_found [OF assms(1)] by simp
  have "take 1 (map p_id (filter (\<lambda>p. p_category_id p = Some ident) (products w))) = []"
    using assms(3) referencing_products [of "products w" ident] by blast
  then show ?thesis
    by (simp add: CategoryService_delete_def found assms(2) assms(4) Let_def)
qed

lemma str_includes_existing_products:
  "str_includes ''Cannot delete category with existing products'' ''existing products''"
  "\<not> str_includes ''Cannot delete category with existing products'' ''not found''"
  by simp_all

text \<open>
  Claim C5, as amended. For a category that exists, with the lookup of referencing
  products answered by the store: if at least one product references the category, the
  delete is rejected with status 400 and the message \<open>Cannot delete category with existing
  products\<close>, after the two lookups and before any delete statement; if no product
  references it and the delete statement succeeds, the answer is 200 and the category's
  row is gone.
\<close>

theorem deleteCategory_guard:
  "ident \<noteq> [] \<and> CategoryService_findById ident w = (Inr (Some cat), w1) \<and>
   faults w SelectProducts = None \<longrightarrow>
     ((\<exists>p \<in> set (products w). p_category_id p = Some ident) \<longrightarrow>
        \<not> success (fst (deleteCategory ident w)) \<and>
        status (fst (deleteCategory ident w)) = 400 \<and>
        message (fst (deleteCategory ident w)) = ''Cannot delete category with existing products'' \<and>
        snd (deleteCategory ident w) = issue SelectProducts (issue SelectCategories w))
   \<and> (\<not> (\<exists>p \<in> set (products w). p_category_id p = Some ident) \<and>
        faults w DeleteCategories = None \<longrightarrow>
        success (fst (deleteCategory ident w)) \<and>
        status (fst (deleteCategory ident w)) = 200 \<and>
        categories (snd (deleteCategory ident w)) = filter (\<lambda>c. c_id c \<noteq> ident) (categories w))"
proof (intro impI conjI)
  assume pre: "ident \<noteq> [] \<and> CategoryService_findById ident w = (Inr (Some cat), w1) \<and>
     faults w SelectProducts = None"
  assume used: "\<exists>p \<in> set (products w). p_category_id p = Some ident"
  have eq: "deleteCategory ident w =
     (sendErrorResponse 400 ''Cannot delete category with existing products'' None,
      issue SelectProducts (issue SelectCategories w))"
    using pre CategoryService_delete_in_use [of ident w cat w1, OF _ _ used]
    by (simp add: deleteCategory_def str_includes_existing_products)
  show "\<not> success (fst (deleteCategory ident w))"
    by (simp add: eq sendErrorResponse_def)
  show "status (fst (deleteCategory ident w)) = 400"
    by (simp add: eq sendErrorResponse_def)
  show "message (fst (deleteCategory ident w)) = ''Cannot delete category with existing products''"
    by (simp add: eq sendErrorResponse_def)
  show "snd (deleteCategory ident w) = issue SelectProducts (issue SelectCategories w)"
    by (simp add: eq)
next
  assume pre: "ident \<noteq> [] \<and> CategoryService_findById ident w = (Inr (Some cat), w1) \<and>
     faults w SelectProducts = None"
  assume unused: "\<not> (\<exists>p \<in> set (products w). p_category_id p = Some ident) \<and>
        faults w DeleteCategories = None"
  have eq: "deleteCategory ident w =
     (sendSuccessResponse 200 ''Category deleted successfully'' None,
      delete_category_rows ident
        (issue DeleteCategories (issue SelectProducts (issue SelectCategories w))))"
    using pre unused CategoryService_delete_unused [of ident w cat w1]
    by (simp add: deleteCategory_def)
  show "success (fst (deleteCategory ident w))"
    by (simp add: eq sendSuccessResponse_def)
  show "status (fst (deleteCategory ident w)) = 200"
    by (simp add: eq sendSuccessResponse_def)
  show "categories (snd (deleteCategory ident w)) = filter (\<lambda>c. c_id c \<noteq> ident) (categories w)"
    by (simp add: eq delete_category_rows_def)
qed


lemmas category_eval = deleteCategory_def CategoryService_delete_def CategoryService_findById_def
  delete_category_rows_def sendErrorResponse_def sendSuccessResponse_def sendNotFoundResponse_def
  failing_def

text \<open>
  Claim C5 as stated asks for status 409 on a category in use. Category \<open>1\<close> of the
  example store is referenced by a product, and the answer is 400.
\<close>

theorem deleteCategory_in_use_is_400:
  "p_category_id (products example_world ! 0) = Some ''1''
   \<and> status (fst (deleteCategory ''1'' example_world)) = 400
   \<and> status (fst (deleteCategory ''1'' example_world)) \<noteq> 409"
  by (simp add: category_eval example_eval)

theorem deleteCategory_guard_witness:
  "status (fst (deleteCategory ''1'' example_world)) = 400
   \<and> map c_id (categories (snd (deleteCategory ''1'' example_world))) = [''1'', ''2'']
   \<and> status (fst (deleteCategory ''2'' example_world)) = 200
   \<and> map c_id (categories (snd (deleteCategory ''2'' example_world))) = [''1'']"
proof -
  obtain c1 w1 where f1: "CategoryService_findById ''1'' example_world = (Inr (Some c1), w1)"
    by (simp add: CategoryService_findById_def example_eval)
  obtain c2 w2 where f2: "CategoryService_findById ''2'' example_world = (Inr (Some c2), w2)"
    by (simp add: CategoryService_findById_def example_eval)
  have nf: "faults example_world SelectProducts = None" "faults example_world DeleteCategories = None"
    by (simp_all add: example_eval)
  have used: "\<exists>p \<in> set (products example_world). p_category_id p = Some ''1''"
    by (simp add: example_eval)
  have unused: "\<not> (\<exists>p \<in> set (products example_world). p_category_id p = Some ''2'')"
    by (simp add: example_eval)
  have a: "status (fst (deleteCategory ''1'' example_world)) = 400
     \<and> snd (deleteCategory ''1'' example_world)
         = issue SelectProducts (issue SelectCategories example_world)"
    using deleteCategory_guard [of "''1''" example_world c1 w1] f1 nf used by simp
  have b: "status (fst (deleteCategory ''2'' example_world)) = 200
     \<and> categories (snd (deleteCategory ''2'' example_world))
         = filter (\<lambda>c. c_id c \<noteq> ''2'') (categories example_world)"
    using deleteCategory_guard [of "''2''" example_world c2 w2] f2 nf unused by simp
  have c: "map c_id (categories example_world) = [''1'', ''2'']"
    "map c_id (filter (\<lambda>c. c_id c \<noteq> ''2'') (categories example_world)) = [''1'']"
    by (simp_all add: example_eval)
  show ?thesis
    using a b c by simp
qed

text \<open>
  Claim C4 asks that a failure of the query that looks for referencing products is
  surfaced and that the delete statement is then not executed. When that query fails,
  \<open>CategoryService.delete\<close> only logs the error: on the example store, with category
  \<open>1\<close> still referenced by a product, the delete statement is issued, the category's
  row is removed and the handler answers 200.
\<close>

theorem CategoryService_delete_check_failure_swallowed:
  "p_category_id (products example_world ! 0) = Some ''1''
   \<and> fst (CategoryService_delete ''1'' (example_world\<lparr>faults := failing [SelectProducts]\<rparr>)) = Inr True
   \<and> journal (snd (CategoryService_delete ''1'' (example_world\<lparr>faults := failing [SelectProducts]\<rparr>)))
       = [SelectCategories, SelectProducts, DeleteCategories]
   \<and> map c_id (categories (snd (CategoryService_delete ''1''
         (example_world\<lparr>faults := failing [SelectProducts]\<rparr>)))) = [''2'']
   \<and> status (fst (deleteCategory ''1'' (example_world\<lparr>faults := failing [SelectProducts]\<rparr>))) = 200"
  by (simp add: category_eval example_eval)

subsection \<open>Evaluating binary64 arithmetic\<close>

lemma floor_rat_numeral_div:
  "\<lfloor>(numeral a :: rat) / numeral b\<rfloor> = numeral a div numeral b"
  by (metis floor_divide_of_int_eq of_int_numeral)

lemmas fl_eval = fl_def nearest_on_grid_def grid_exponent_def round_half_even_def ilog2_def
  pow2_def bit_length.simps Let_def
  floor_rat_numeral_div











subsection \<open>Order creation\<close>

lemmas order_eval = createOrder_def OrderService_create_def createOrderQuery_def
  itemsToInsert_def isNaN_def truncate_rat_def js_sub_def sendErrorResponse_def
  sendSuccessResponse_def failing_with_def

lemma validated_total_loop:
  "validate_items its = None \<Longrightarrow>
     total_loop acc its = Inr (foldl (\<lambda>acc item. js_add acc (line_amount item)) acc its)"
proof (induction its arbitrary: acc)
  case Nil
  then show ?case by simp
next
  case (Cons item rest)
  from Cons.prems have ok:
    "truthy (product_id item)" "truthy (quantity item)" "truthy (price item)"
    and rest: "validate_items rest = None"
    by (simp_all split: if_splits)
  show ?case
    using Cons.IH [OF rest] ok by (simp add: line_amount_def)
qed


lemma OrderService_create_compensates:
  assumes "uid \<noteq> []" and "its \<noteq> []" and "validate_items its = None"
    and "faults w InsertOrders = None" and "faults w InsertOrderItems = Some e"
    and "faults w DeleteOrders = None"
  shows "OrderService_create \<lparr>od_user_id = uid, od_items = its, od_status = st\<rparr> w =
     (Inl (err_message e),
      (issue DeleteOrders (issue InsertOrderItems (issue InsertOrders w)))
        \<lparr>orders := filter (\<lambda>ord. o_id ord \<noteq> next_order_id w) (orders w)\<rparr>)"
  using assms
  by (simp add: OrderService_create_def validated_total_loop Let_def createOrderQuery_def
      issue_def)

lemma createOrder_validation_first:
  "its \<noteq> [] \<Longrightarrow> validate_items its = Some msg \<Longrightarrow>
     createOrder user (Some its) st w = (sendErrorResponse 400 msg None, w)"
  by (simp add: createOrder_def)

text \<open>
  Claim C3 says that an item with a product id, an integer quantity of at least 1 and a
  price of exactly 0 passes validation and that the order insert is attempted. The
  presence check \<open>!item.price\<close> treats the number 0 as missing: the request is answered
  with 400 and the store is never called.
\<close>

theorem createOrder_rejects_zero_price:
  "createOrder (principal_of (users example_world ! 1))
     (Some [\<lparr>product_id = JNum (Fin 1), quantity = JNum (Fin 1), price = JNum (Fin 0)\<rparr>])
     [] example_world
   = (sendErrorResponse 400 ''Each item must have product_id, quantity, and price'' None,
      example_world)"
  by (simp add: createOrder_def)

text \<open>
  Claim C2 says that a failure of the compensating delete is surfaced together with the
  original error. With the item insert and the compensating delete both failing, the
  service throws the item insert's message alone, the order row \<open>8\<close> it created stays in
  the store, and the handler's answer is the one it gives when the compensation worked.
\<close>

theorem create_compensation_failure_hidden:
  "fst (OrderService_create
          \<lparr>od_user_id = ''u-ann'',
           od_items = [\<lparr>product_id = JNum (Fin 1), quantity = JNum (Fin 2), price = JNum (Fin 5)\<rparr>],
           od_status = ''pending''\<rparr>
          (example_world\<lparr>faults := failing_with
             [(InsertOrderItems, ''items insert failed''), (DeleteOrders, ''rollback failed'')]\<rparr>))
     = Inl ''items insert failed''
   \<and> map o_id (orders (snd (OrderService_create
          \<lparr>od_user_id = ''u-ann'',
           od_items = [\<lparr>product_id = JNum (Fin 1), quantity = JNum (Fin 2), price = JNum (Fin 5)\<rparr>],
           od_status = ''pending''\<rparr>
          (example_world\<lparr>faults := failing_with
             [(InsertOrderItems, ''items insert failed''), (DeleteOrders, ''rollback failed'')]\<rparr>))))
     = [''7'', ''8'']
   \<and> fst (createOrder (principal_of (users example_world ! 1))
          (Some [\<lparr>product_id = JNum (Fin 1), quantity = JNum (Fin 2), price = JNum (Fin 5)\<rparr>]) []
          (example_world\<lparr>faults := failing_with
             [(InsertOrderItems, ''items insert failed''), (DeleteOrders, ''rollback failed'')]\<rparr>))
     = sendErrorResponse 500 ''Failed to create order'' (Some ''items insert failed'')
   \<and> fst (createOrder (principal_of (users example_world ! 1))
          (Some [\<lparr>product_id = JNum (Fin 1), quantity = JNum (Fin 2), price = JNum (Fin 5)\<rparr>]) []
          (example_world\<lparr>faults := failing_with [(InsertOrderItems, ''items insert failed'')]\<rparr>))
     = sendErrorResponse 500 ''Failed to create order'' (Some ''items insert failed'')"
  by (simp add: order_eval example_eval)




subsection \<open>Token classes\<close>

lemma verify_same:
  "verifyAccessToken V cfg token = verifyRefreshToken V cfg token"
  by (simp add: verifyAccessToken_def verifyRefreshToken_def)

lemma extract_bearer:
  "extractTokenFromHeader (Some (''Bearer '' @ token)) = Some token"
  "extractTokenFromHeader
     (Some (CHR ''B'' # CHR ''e'' # CHR ''a'' # CHR ''r'' # CHR ''e'' # CHR ''r'' # CHR '' '' # token))
   = Some token"
  by (simp_all add: extractTokenFromHeader_def)

text \<open>
  Claim C7, as amended. \<open>verifyAccessToken\<close> and \<open>verifyRefreshToken\<close> make the same
  call, and the two token classes differ in their expiry only. So, whatever the library's
  \<open>verify\<close> does, the authentication step of a protected operation accepts a bearer
  token exactly when the token-refresh operation accepts the same token: a refresh token
  that the refresh operation accepts is accepted as a bearer credential as well.
\<close>

theorem refresh_token_passes_authentication:
  "success (fst (refreshToken_handler V now cfg (Some token) w)) \<longleftrightarrow>
     (\<exists>principal w'.
        authenticateToken V cfg (Some (''Bearer '' @ token)) w = (Inr principal, w'))"
proof (cases "token = []")
  case True
  then show ?thesis
    by (simp add: refreshToken_handler_def authenticateToken_def extract_bearer
        sendUnauthorizedResponse_def sendErrorResponse_def)
next
  case False
  show ?thesis
  proof (cases "verifyRefreshToken V cfg token")
    case (Inl e)
    then show ?thesis
      using False
      by (cases e)
        (simp_all add: refreshToken_handler_def authenticateToken_def extract_bearer verify_same
          sendUnauthorizedResponse_def sendErrorResponse_def)
  next
    case (Inr decoded)
    obtain r where r: "UserService_findById (userId decoded) w = (r, issue SelectUsers w)"
      using UserService_findById_eq by blast
    show ?thesis
    proof (cases r)
      case (Inl msg)
      then show ?thesis
        using False Inr r
        by (simp add: refreshToken_handler_def authenticateToken_def extract_bearer verify_same
            sendErrorResponse_def)
    next
      case (Inr found)
      then show ?thesis
        using False \<open>verifyRefreshToken V cfg token = Inr decoded\<close> r
        by (cases found)
          (simp_all add: refreshToken_handler_def authenticateToken_def extract_bearer verify_same
            sendUnauthorizedResponse_def sendErrorResponse_def sendSuccessResponse_def)
    qed
  qed
qed

lemmas token_eval = example_decode_def example_env_def generateRefreshToken_def
  generateAccessToken_def jwt_sign_def jwt_verify_def verifyAccessToken_def
  verifyRefreshToken_def extractTokenFromHeader_def

text \<open>
  Claim C7 as stated says the authentication step rejects a valid, unexpired refresh
  token. The refresh token signed for Ann at time 0 is presented as a bearer credential
  at time 1000, when the access token of the same pair has expired: the authentication
  step resolves Ann as the principal, and the refresh operation accepts the token too.
\<close>

theorem refresh_token_accepted_as_bearer:
  "fst (authenticateToken (jwt_verify example_decode 1000) example_env
          (Some ''Bearer refresh-1'') example_world)
     = Inr (principal_of (users example_world ! 1))
   \<and> success (fst (refreshToken_handler (jwt_verify example_decode 1000) 1000 example_env
          (Some ''refresh-1'') example_world))
   \<and> verifyAccessToken (jwt_verify example_decode 1000) example_env ''access-1''
     = Inl TokenExpiredError"
  by (simp add: authenticateToken_def refreshToken_handler_def UserService_findById_def
      token_eval example_eval sendSuccessResponse_def uuid_in_examples)


theorem refresh_token_passes_authentication_witness:
  "success (fst (refreshToken_handler (jwt_verify example_decode 1000) 1000 example_env
          (Some ''refresh-1'') example_world))
   \<and> (\<exists>principal w'.
         authenticateToken (jwt_verify example_decode 1000) example_env
           (Some (''Bearer '' @ ''refresh-1'')) example_world = (Inr principal, w'))"
proof -
  have accepted:
    "success (fst (refreshToken_handler (jwt_verify example_decode 1000) 1000 example_env
          (Some ''refresh-1'') example_world))"
    by (simp add: refreshToken_handler_def UserService_findById_def token_eval example_eval
        sendSuccessResponse_def uuid_in_examples)
  with refresh_token_passes_authentication
    [of "jwt_verify example_decode 1000" 1000 example_env "''refresh-1''" example_world]
  show ?thesis by blast
qed

subsection \<open>Rounding to binary64\<close>





















lemma pow2_zero [simp]: "pow2 0 = 1"
  by (simp add: pow2_def)


subsection \<open>Paginated lists\<close>

lemma paged_select_world:
  "snd (paged_select c rows page limit w) = issue c w"
  by (simp add: paged_select_def Let_def split: prod.splits option.splits)

lemma paged_select_eq:
  "paged_select c rows page limit w = (fst (paged_select c rows page limit w), issue c w)"
  by (simp add: prod_eq_iff paged_select_world)

lemma OrderService_findByUser_eq:
  "OrderService_findByUser uid page limit w =
     (fst (OrderService_findByUser uid page limit w), issue SelectOrders w)"
  by (simp add: OrderService_findByUser_def prod_eq_iff paged_select_world split: option.splits)

text \<open>
  Claim C10. With the effective page \<open>parseInt(req.query.page) || 1\<close> and the effective
  limit \<open>parseInt(req.query.limit) || 10\<close>: whenever the page is below 1, the limit is
  below 1 or the limit is above 100, each of the three list handlers (products, all
  orders, the user's orders) answers 400 and sends nothing to the store; in every other
  case the handler sends exactly one select to the store and does not answer 400. (The
  routes of the two order lists run the authentication step before the handler; its
  lookup of the principal is not the handler's.)
\<close>

theorem list_handlers_reject_invalid_pagination:
  "(let page = or_default (parseInt_query query_page) (Fin 1);
        limit = or_default (parseInt_query query_limit) (Fin 10)
    in (js_lt page (Fin 1) \<or> js_lt limit (Fin 1) \<or> js_lt (Fin 100) limit \<longrightarrow>
          getAllProducts query_page query_limit w =
            (sendErrorResponse 400 ''Invalid pagination parameters'' None, w) \<and>
          getAllOrders query_page query_limit w =
            (sendErrorResponse 400 ''Invalid pagination parameters'' None, w) \<and>
          getUserOrders user query_page query_limit w =
            (sendErrorResponse 400 ''Invalid pagination parameters'' None, w))
     \<and> (\<not> (js_lt page (Fin 1) \<or> js_lt limit (Fin 1) \<or> js_lt (Fin 100) limit) \<longrightarrow>
          status (fst (getAllProducts query_page query_limit w)) \<noteq> 400 \<and>
          snd (getAllProducts query_page query_limit w) = issue SelectProducts w \<and>
          status (fst (getAllOrders query_page query_limit w)) \<noteq> 400 \<and>
          snd (getAllOrders query_page query_limit w) = issue SelectOrders w \<and>
          status (fst (getUserOrders user query_page query_limit w)) \<noteq> 400 \<and>
          snd (getUserOrders user query_page query_limit w) = issue SelectOrders w))"
proof -
  define page where "page = or_default (parseInt_query query_page) (Fin 1)"
  define limit where "limit = or_default (parseInt_query query_limit) (Fin 10)"
  define invalid where
    "invalid \<longleftrightarrow> js_lt page (Fin 1) \<or> js_lt limit (Fin 1) \<or> js_lt (Fin 100) limit"
  have guard: "(js_lt page (Fin 1) \<or> js_lt limit (Fin 1) \<or> js_gt limit (Fin 100)) = invalid"
    by (simp add: invalid_def js_gt_def)
  have bad: "invalid \<Longrightarrow>
          getAllProducts query_page query_limit w =
            (sendErrorResponse 400 ''Invalid pagination parameters'' None, w) \<and>
          getAllOrders query_page query_limit w =
            (sendErrorResponse 400 ''Invalid pagination parameters'' None, w) \<and>
          getUserOrders user query_page query_limit w =
            (sendErrorResponse 400 ''Invalid pagination parameters'' None, w)"
    by (simp add: getAllProducts_def getAllOrders_def getUserOrders_def Let_def
        page_def [symmetric] limit_def [symmetric] guard)
  have good: "status (fst (getAllProducts query_page query_limit w)) \<noteq> 400 \<and>
          snd (getAllProducts query_page query_limit w) = issue SelectProducts w \<and>
          status (fst (getAllOrders query_page query_limit w)) \<noteq> 400 \<and>
          snd (getAllOrders query_page query_limit w) = issue SelectOrders w \<and>
          status (fst (getUserOrders user query_page query_limit w)) \<noteq> 400 \<and>
          snd (getUserOrders user query_page query_limit w) = issue SelectOrders w"
    if ok: "\<not> invalid"
  proof -
    obtain r1 where r1: "ProductService_findAll page limit w = (r1, issue SelectProducts w)"
      unfolding ProductService_findAll_def using paged_select_eq by blast
    obtain r2 where r2: "OrderService_findAll page limit w = (r2, issue SelectOrders w)"
      unfolding OrderService_findAll_def using paged_select_eq by blast
    obtain r3 where r3:
      "OrderService_findByUser (ru_id user) page limit w = (r3, issue SelectOrders w)"
      using OrderService_findByUser_eq by blast
    have p: "getAllProducts query_page query_limit w =
       (case r1 of
          Inr (rows, total_count) \<Rightarrow>
            sendPaginatedResponse rows page limit total_count ''Products retrieved successfully''
        | Inl msg \<Rightarrow> sendErrorResponse 500 ''Failed to fetch products'' (Some msg),
        issue SelectProducts w)"
      using ok r1
      by (simp add: getAllProducts_def Let_def page_def [symmetric] limit_def [symmetric] guard
          split: sum.splits prod.splits)
    have o: "getAllOrders query_page query_limit w =
       (case r2 of
          Inr (rows, total_count) \<Rightarrow>
            sendPaginatedResponse rows page limit total_count ''Orders retrieved successfully''
        | Inl msg \<Rightarrow> sendErrorResponse 500 ''Failed to fetch orders'' (Some msg),
        issue SelectOrders w)"
      using ok r2
      by (simp add: getAllOrders_def Let_def page_def [symmetric] limit_def [symmetric] guard
          split: sum.splits prod.splits)
    have u: "getUserOrders user query_page query_limit w =
       (case r3 of
          Inr (rows, total_count) \<Rightarrow>
            sendPaginatedResponse rows page limit total_count ''Orders retrieved successfully''
        | Inl msg \<Rightarrow> sendErrorResponse 500 ''Failed to fetch orders'' (Some msg),
        issue SelectOrders w)"
      using ok r3
      by (simp add: getUserOrders_def Let_def page_def [symmetric] limit_def [symmetric] guard
          split: sum.splits prod.splits)
    show ?thesis
      unfolding p o u
      by (simp add: sendPaginatedResponse_def sendSuccessResponse_def sendErrorResponse_def
          Let_def split: sum.splits prod.splits)
  qed
  from bad good show ?thesis
    unfolding Let_def page_def [symmetric] limit_def [symmetric] invalid_def [symmetric]
    by blast
qed

lemma of_char_digits [simp]:
  "digit_of CHR ''0'' = Some 0" "digit_of CHR ''1'' = Some 1" "digit_of CHR ''2'' = Some 2"
  "digit_of CHR ''3'' = Some 3" "digit_of CHR ''4'' = Some 4" "digit_of CHR ''5'' = Some 5"
  "digit_of CHR ''6'' = Some 6" "digit_of CHR ''7'' = Some 7" "digit_of CHR ''8'' = Some 8"
  "digit_of CHR ''9'' = Some 9" "digit_of CHR ''x'' = None" "digit_of CHR ''-'' = None"
  by (simp_all add: digit_of_def)

lemma parseInt_str_examples:
  "parseInt_str ''-3'' = Fin (- 3)"
  "parseInt_str ''101'' = Fin 101"
  "parseInt_str ''100'' = Fin 100"
  "parseInt_str ''0'' = Fin 0"
  "parseInt_str ''2'' = Fin 2"
  "parseInt_str ''5'' = Fin 5"
  "parseInt_str ''1'' = Fin 1"
  "parseInt_str ''10'' = Fin 10"
  "parseInt_str ''abc'' = NaN"
  "parseInt_str ''0x1f'' = Fin 31"
  "parseInt_str '' 7px'' = Fin 7"
  "parseInt_str [CHR 0xA0, CHR ''-'', CHR ''3''] = Fin (- 3)"
  by (simp_all add: parseInt_str_def is_space_def fl_eval digit_of_def)

text \<open>
  Limits 100 and 101 fall on the two sides of the cap; a page of \<open>-3\<close> is rejected, also
  behind a no-break space, and so is a limit of \<open>-3\<close>; a page of \<open>0\<close> and a limit of
  \<open>0\<close> become the defaults 1 and 10 and are served.
\<close>

theorem list_handlers_reject_invalid_pagination_witness:
  "getAllProducts (Some ''-3'') None example_world =
     (sendErrorResponse 400 ''Invalid pagination parameters'' None, example_world)
   \<and> getAllProducts (Some [CHR 0xA0, CHR ''-'', CHR ''3'']) None example_world =
     (sendErrorResponse 400 ''Invalid pagination parameters'' None, example_world)
   \<and> getAllOrders (Some ''1'') (Some ''101'') example_world =
     (sendErrorResponse 400 ''Invalid pagination parameters'' None, example_world)
   \<and> getUserOrders (principal_of (users example_world ! 1)) (Some ''2'') (Some ''-3'') example_world =
     (sendErrorResponse 400 ''Invalid pagination parameters'' None, example_world)
   \<and> snd (getAllOrders (Some ''1'') (Some ''100'') example_world) = issue SelectOrders example_world
   \<and> status (fst (getAllOrders (Some ''1'') (Some ''100'') example_world)) \<noteq> 400
   \<and> snd (getAllProducts (Some ''0'') (Some ''0'') example_world) = issue SelectProducts example_world
   \<and> status (fst (getAllProducts (Some ''0'') (Some ''0'') example_world)) \<noteq> 400"
proof -
  have a: "js_lt (or_default (parseInt_query (Some ''-3'')) (Fin 1)) (Fin 1)"
    by (simp add: or_default_def parseInt_query_def parseInt_str_examples)
  have b: "js_lt (or_default (parseInt_query (Some [CHR 0xA0, CHR ''-'', CHR ''3''])) (Fin 1)) (Fin 1)"
    by (simp add: or_default_def parseInt_query_def parseInt_str_examples)
  have c: "js_lt (Fin 100) (or_default (parseInt_query (Some ''101'')) (Fin 10))"
    by (simp add: or_default_def parseInt_query_def parseInt_str_examples)
  have d: "js_lt (or_default (parseInt_query (Some ''-3'')) (Fin 10)) (Fin 1)"
    by (simp add: or_default_def parseInt_query_def parseInt_str_examples)
  have e: "\<not> (js_lt (or_default (parseInt_query (Some ''1'')) (Fin 1)) (Fin 1)
             \<or> js_lt (or_default (parseInt_query (Some ''100'')) (Fin 10)) (Fin 1)
             \<or> js_lt (Fin 100) (or_default (parseInt_query (Some ''100'')) (Fin 10)))"
    by (simp add: or_default_def parseInt_query_def parseInt_str_examples)
  have f: "\<not> (js_lt (or_default (parseInt_query (Some ''0'')) (Fin 1)) (Fin 1)
             \<or> js_lt (or_default (parseInt_query (Some ''0'')) (Fin 10)) (Fin 1)
             \<or> js_lt (Fin 100) (or_default (parseInt_query (Some ''0'')) (Fin 10)))"
    by (simp add: or_default_def parseInt_query_def parseInt_str_examples)
  note t = list_handlers_reject_invalid_pagination [unfolded Let_def]
  show ?thesis
    using t [of "Some ''-3''" None example_world] a
      t [of "Some [CHR 0xA0, CHR ''-'', CHR ''3'']" None example_world] b
      t [of "Some ''1''" "Some ''101''" example_world] c
      t [of "Some ''2''" "Some ''-3''" example_world "principal_of (users example_world ! 1)"] d
      t [of "Some ''1''" "Some ''100''" example_world] e
      t [of "Some ''0''" "Some ''0''" example_world] f
    by blast
qed














end
